theory Spec2Isabelle
  imports Main "HOL-Library.Char_ord" "HOL-Library.List_Lexorder" "HOL-Library.AList"
    "HOL-Library.Sublist"
begin

section \<open>Values, dictionaries and exceptions\<close>

text \<open>
  The indexer moves JSON documents around: raw records from the remote API, the
  configuration and the stored index. A JSON value is modelled as the Python object
  \<open>json.load\<close> builds for it; an object is an association list in insertion order,
  which is also the order Python's \<open>dict\<close> keeps. JSON numbers with a fraction
  (Python floats) are not part of the model. Text is modelled over 8-bit characters:
  \<open>lower\<close>, \<open>strip\<close> and the class \<open>\w\<close> are the ASCII ones.
\<close>

datatype json =
    JNull
  | JBool bool
  | JInt int
  | JStr string
  | JList "json list"
  | JObj "(string \<times> json) list"

type_synonym pydict = "(string \<times> json) list"

text \<open>
  The exceptions of \<open>indexer_types.py\<close> and the built-in ones the code can raise.
  \<open>ProcessingError\<close> carries the exception it wraps (\<open>raise ... from e\<close>) and
  \<open>ValidationError\<close> the list of missing fields of its message. \<open>IllTyped\<close> is
  not a Python exception: it marks an input whose field values fall outside the types
  that \<open>ProcessedShow\<close> declares, at the places where the model does not follow
  Python any further.
\<close>

datatype py_exn =
    KeyError
  | TypeError
  | AttributeError
  | IOError
  | ConfigError
  | FetchError
  | ValidationError "string list"
  | ProcessingError py_exn
  | IllTyped

text \<open>Python truthiness (\<open>if x:\<close>, \<open>not x\<close>) of a JSON value.\<close>

fun truthy :: "json \<Rightarrow> bool" where
  "truthy JNull = False"
| "truthy (JBool b) = b"
| "truthy (JInt n) = (n \<noteq> 0)"
| "truthy (JStr s) = (s \<noteq> [])"
| "truthy (JList xs) = (xs \<noteq> [])"
| "truthy (JObj d) = (d \<noteq> [])"

text \<open>\<open>d.get(k, default)\<close>, \<open>k in d\<close> and \<open>d[k] = v\<close> on a dictionary.\<close>

definition dict_get :: "pydict \<Rightarrow> string \<Rightarrow> json \<Rightarrow> json" where
  "dict_get d k dflt = (case map_of d k of None \<Rightarrow> dflt | Some v \<Rightarrow> v)"

definition dict_has :: "pydict \<Rightarrow> string \<Rightarrow> bool" where
  "dict_has d k = (map_of d k \<noteq> None)"

definition dict_set :: "pydict \<Rightarrow> string \<Rightarrow> json \<Rightarrow> pydict" where
  "dict_set d k v = AList.update k v d"

text \<open>A list of JSON values as the list of strings that its annotation declares.\<close>

fun str_list :: "json list \<Rightarrow> string list option" where
  "str_list [] = Some []"
| "str_list (JStr s # rest) = map_option (Cons s) (str_list rest)"
| "str_list (other # rest) = None"

section \<open>Text\<close>

definition lower_char :: "char \<Rightarrow> char" where
  "lower_char c =
     (case map_of (zip ''ABCDEFGHIJKLMNOPQRSTUVWXYZ'' ''abcdefghijklmnopqrstuvwxyz'') c of
        None \<Rightarrow> c
      | Some l \<Rightarrow> l)"

definition lower :: "string \<Rightarrow> string" where
  "lower s = map lower_char s"

text \<open>The characters \<open>str.strip()\<close> removes: the ASCII ones with \<open>isspace()\<close>.\<close>

definition is_space :: "char \<Rightarrow> bool" where
  "is_space c = (c \<in> set [CHR 0x09, CHR 0x0A, CHR 0x0B, CHR 0x0C, CHR 0x0D,
                            CHR 0x1C, CHR 0x1D, CHR 0x1E, CHR 0x1F, CHR 0x20])"

definition strip :: "string \<Rightarrow> string" where
  "strip s = rev (dropWhile is_space (rev (dropWhile is_space s)))"

text \<open>The class \<open>\w\<close>: letters, digits and the underscore.\<close>

definition is_word :: "char \<Rightarrow> bool" where
  "is_word c =
     (c \<in> set ''abcdefghijklmnopqrstuvwxyzABCDEFGHIJKLMNOPQRSTUVWXYZ0123456789_'')"

section \<open>The categorization engine (processor.py)\<close>

text \<open>
  A compiled regular expression is an object of Python's \<open>re\<close> module. The program
  only ever calls its \<open>search\<close> method and tests the result for truth, so the object
  is modelled by that test: \<open>search r title\<close> is \<open>r.search(title)\<close> being a match.
\<close>

record re_Pattern =
  search :: "string \<Rightarrow> bool"

datatype re_flag = IGNORECASE

record CompiledPattern =
  name :: string
  regex :: re_Pattern
  extra_tags :: "string list"

record DataProcessor =
  tag_mappings :: "(string \<times> string) list"
  patterns :: "CompiledPattern list"

text \<open>
  \<open>normalize_tag\<close>: the loop over \<open>self.tag_mappings.items()\<close> returns the value of
  the first key that equals the tag once both are lower-cased.
\<close>

fun first_mapping :: "(string \<times> string) list \<Rightarrow> string \<Rightarrow> string option" where
  "first_mapping [] tag_lower = None"
| "first_mapping ((key, val) # rest) tag_lower =
     (if lower key = tag_lower then Some val else first_mapping rest tag_lower)"

definition normalize_tag :: "DataProcessor \<Rightarrow> string \<Rightarrow> string" where
  "normalize_tag self tag =
     (if tag = [] then tag
      else case first_mapping (tag_mappings self) (lower tag) of
             Some val \<Rightarrow> val
           | None \<Rightarrow> tag)"

text \<open>
  \<open>normalize_tags\<close> collects the normalized tags in a set and returns
  \<open>sorted(list(normalized_set))\<close>.
\<close>

definition normalize_tags :: "DataProcessor \<Rightarrow> string list \<Rightarrow> string list" where
  "normalize_tags self tags = sorted_list_of_set (set (map (normalize_tag self) tags))"

text \<open>\<open>DEFAULT_CATEGORY\<close> of \<open>constants.py\<close>, byte for byte (UTF-8).\<close>

definition DEFAULT_CATEGORY :: string where
  "DEFAULT_CATEGORY =
     ''Sans cat'' @ [CHR 0xE2, CHR 0x88, CHR 0x9A, CHR 0xC2, CHR 0xA9] @ ''gorie''"

text \<open>
  \<open>get_category_info\<close>: the \<open>for pattern in self.patterns\<close> loop returns at the first
  pattern whose \<open>regex.search(title)\<close> is a match; an empty title returns before the
  loop.
\<close>

fun match_patterns :: "CompiledPattern list \<Rightarrow> string \<Rightarrow> string \<times> string list" where
  "match_patterns [] title = (DEFAULT_CATEGORY, [])"
| "match_patterns (pattern # rest) title =
     (if search (regex pattern) title then (name pattern, extra_tags pattern)
      else match_patterns rest title)"

definition get_category_info :: "DataProcessor \<Rightarrow> string \<Rightarrow> string \<times> string list" where
  "get_category_info self title =
     (if title = [] then (DEFAULT_CATEGORY, [])
      else match_patterns (patterns self) title)"

section \<open>The show processor (processor.py)\<close>

definition required_fields :: "string list" where
  "required_fields = [''key'', ''name'', ''slug'', ''url'']"

text \<open>
  \<open>_validate_raw_show\<close> evaluates \<open>field not in raw_data\<close> for each required field.
  On a dictionary that is a key test. The annotation promises a dictionary, but nothing
  checks it: on a list the test compares elements, on a string it looks for a
  substring, and on \<open>None\<close>, a number or a boolean it raises \<open>TypeError\<close>.
\<close>

fun field_in :: "string \<Rightarrow> json \<Rightarrow> py_exn + bool" where
  "field_in field (JObj d) = Inr (dict_has d field)"
| "field_in field (JList xs) = Inr (JStr field \<in> set xs)"
| "field_in field (JStr s) = Inr (sublist field s)"
| "field_in field JNull = Inl TypeError"
| "field_in field (JBool b) = Inl TypeError"
| "field_in field (JInt n) = Inl TypeError"

fun missing_fields :: "string list \<Rightarrow> json \<Rightarrow> py_exn + string list" where
  "missing_fields [] raw_data = Inr []"
| "missing_fields (field # rest) raw_data =
     (case field_in field raw_data of
        Inl e \<Rightarrow> Inl e
      | Inr present \<Rightarrow>
          (case missing_fields rest raw_data of
             Inl e \<Rightarrow> Inl e
           | Inr ms \<Rightarrow> Inr (if present then ms else field # ms)))"

definition validate_raw_show :: "json \<Rightarrow> py_exn + unit" where
  "validate_raw_show raw_data =
     (case missing_fields required_fields raw_data of
        Inl e \<Rightarrow> Inl e
      | Inr ms \<Rightarrow> if ms \<noteq> [] then Inl (ValidationError ms) else Inr ())"

text \<open>\<open>_normalize_text\<close>: \<open>re.sub(r'[^\w]', '', text).lower()\<close>.\<close>

definition normalize_text :: "string \<Rightarrow> string" where
  "normalize_text text = (if text = [] then [] else lower (filter is_word text))"

text \<open>\<open>s.split(sep)\<close> and \<open>s.split(sep, 1)\<close> for a separator that is not empty.\<close>

fun split_acc :: "string \<Rightarrow> string \<Rightarrow> string \<Rightarrow> string list" where
  "split_acc sep acc [] = [rev acc]"
| "split_acc sep acc (c # cs) =
     (if sep \<noteq> [] \<and> prefix sep (c # cs)
      then rev acc # split_acc sep [] (drop (length sep - 1) cs)
      else split_acc sep (c # acc) cs)"

fun split1_acc :: "string \<Rightarrow> string \<Rightarrow> string \<Rightarrow> string list" where
  "split1_acc sep acc [] = [rev acc]"
| "split1_acc sep acc (c # cs) =
     (if sep \<noteq> [] \<and> prefix sep (c # cs)
      then [rev acc, drop (length sep - 1) cs]
      else split1_acc sep (c # acc) cs)"

definition py_split :: "string \<Rightarrow> string \<Rightarrow> string list" where
  "py_split sep s = split_acc sep [] s"

definition py_split1 :: "string \<Rightarrow> string \<Rightarrow> string list" where
  "py_split1 sep s = split1_acc sep [] s"

text \<open>
  \<open>_extract_picture_key\<close>. A truthy URL that is not a string raises
  \<open>AttributeError\<close> at \<open>url.split\<close>, which the \<open>try\<close> turns into \<open>continue\<close>;
  \<open>pictures.get\<close> itself stands outside the \<open>try\<close>.
\<close>

fun picture_key_loop :: "pydict \<Rightarrow> string list \<Rightarrow> string" where
  "picture_key_loop pictures [] = []"
| "picture_key_loop pictures (key # keys) =
     (case dict_get pictures key JNull of
        JStr url \<Rightarrow>
          (if url \<noteq> [] then
             (let parts = py_split ''unsafe/'' url in
              if length parts > 1 then
                (let path_parts = py_split1 ''/'' (parts ! 1) in
                 if length path_parts > 1 then path_parts ! 1
                 else picture_key_loop pictures keys)
              else picture_key_loop pictures keys)
           else picture_key_loop pictures keys)
      | _ \<Rightarrow> picture_key_loop pictures keys)"

definition extract_picture_key :: "json \<Rightarrow> py_exn + string" where
  "extract_picture_key pictures =
     (case pictures of
        JObj d \<Rightarrow> Inr (picture_key_loop d [''large'', ''medium'', ''small'', ''thumbnail''])
      | _ \<Rightarrow> Inl AttributeError)"

text \<open>The names of the tag objects of the API response that have a string name.\<close>

fun tag_names :: "json list \<Rightarrow> string list" where
  "tag_names [] = []"
| "tag_names (JObj tag # rest) =
     (case map_of tag ''name'' of
        Some (JStr tag_name) \<Rightarrow> tag_name # tag_names rest
      | _ \<Rightarrow> tag_names rest)"
| "tag_names (other # rest) = tag_names rest"

text \<open>
  \<open>process_show\<close>. Its \<open>except (ValidationError, KeyError)\<close> wraps these two in a
  \<open>ProcessingError\<close>; any other exception leaves the function as it is. After the
  validation the record has a \<open>get\<close> method only when it is a dictionary. The steps
  that can raise run in the order of the source: the title, the picture key, the
  description.
\<close>

definition process_show :: "DataProcessor \<Rightarrow> json \<Rightarrow> py_exn + pydict" where
  "process_show self raw_data =
     (case validate_raw_show raw_data of
        Inl (ValidationError ms) \<Rightarrow> Inl (ProcessingError (ValidationError ms))
      | Inl e \<Rightarrow> Inl e
      | Inr _ \<Rightarrow>
          (case raw_data of
             JObj raw \<Rightarrow>
               (case dict_get raw ''name'' (JStr []) of
                  JStr raw_name \<Rightarrow>
                    (let title = strip raw_name;
                         (category, extra) = get_category_info self title;
                         existing_tags =
                           (case dict_get raw ''tags'' (JList []) of
                              JList raw_tags \<Rightarrow> tag_names raw_tags
                            | _ \<Rightarrow> []);
                         all_tags = normalize_tags self (existing_tags @ extra)
                     in case extract_picture_key (dict_get raw ''pictures'' (JObj [])) of
                          Inl e \<Rightarrow> Inl e
                        | Inr picture_key \<Rightarrow>
                            (let processed =
                                   [(''name'', JStr title),
                                    (''slug'', dict_get raw ''slug'' JNull),
                                    (''created_time'', dict_get raw ''created_time'' (JStr [])),
                                    (''picture_key'', JStr picture_key),
                                    (''tags'', JList (map JStr all_tags)),
                                    (''category'', JStr category),
                                    (''audio_length'', dict_get raw ''audio_length'' (JInt 0))]
                             in case dict_get raw ''description'' (JStr []) of
                                  JStr description \<Rightarrow>
                                    (if description \<noteq> []
                                        \<and> normalize_text title \<noteq> normalize_text description
                                     then Inr (dict_set processed ''description'' (JStr description))
                                     else Inr processed)
                                | other \<Rightarrow>
                                    (if truthy other then Inl TypeError else Inr processed)))
                | _ \<Rightarrow> Inl AttributeError)
           | _ \<Rightarrow> Inl AttributeError))"

section \<open>The catalog fetcher (fetcher.py)\<close>

text \<open>
  The remote API and the \<open>requests\<close> session are the environment of \<open>fetch_shows\<close>.
  The walk over the listing is driven by the responses to its listing requests, in the
  order they are made: the first element answers the request for the first page, the
  next one the request for the URL that page named as \<open>next\<close>, and so on. A response is
  either one of the failures that the four \<open>except\<close> clauses turn into \<open>FetchError\<close>,
  or the decoded body. The answer to a detail request is a function of the key it asks
  for: the decoded body, or a \<open>requests.exceptions.RequestException\<close>.
\<close>

datatype page_response = RequestFailed | Body json

datatype detail_response = DetailFailed | DetailBody json

text \<open>
  How the generator ends: the listing had no further page, the limit was reached, a
  key of \<open>existing_ids\<close> was met, or an exception left it. \<open>NoResponse\<close> is the end
  of the list of responses with a next page still to ask for: the run never got there.
\<close>

datatype fetch_end = Completed | LimitReached | FoundExisting | Raised py_exn | NoResponse

text \<open>
  A set holds hashable values and finds them by \<open>==\<close>: a list or a dictionary raises
  \<open>TypeError\<close>, and \<open>True\<close> and \<open>False\<close> are the numbers 1 and 0.
\<close>

fun hash_key :: "json \<Rightarrow> py_exn + json" where
  "hash_key (JList xs) = Inl TypeError"
| "hash_key (JObj d) = Inl TypeError"
| "hash_key (JBool b) = Inr (JInt (if b then 1 else 0))"
| "hash_key v = Inr v"

text \<open>
  The \<open>for show in shows\<close> loop of one page. It returns what it yields and either how
  the generator ended inside the page (\<open>Inl\<close>) or the value of \<open>count\<close> after the page
  (\<open>Inr\<close>). \<open>show.get\<close> raises \<open>AttributeError\<close> on an item that is not a
  dictionary. When the detail request fails the summary item itself is yielded.
\<close>

fun fetch_items ::
  "(json \<Rightarrow> detail_response) \<Rightarrow> int option \<Rightarrow> json set \<Rightarrow> nat \<Rightarrow> json list
     \<Rightarrow> json list \<times> (fetch_end + nat)" where
  "fetch_items detail limit existing_ids count [] = ([], Inr count)"
| "fetch_items detail limit existing_ids count (show # rest) =
     (if (case limit of None \<Rightarrow> False | Some l \<Rightarrow> int count \<ge> l) then ([], Inl LimitReached)
      else case show of
        JObj d \<Rightarrow>
          (let show_key = dict_get d ''key'' JNull in
           case hash_key show_key of
             Inl e \<Rightarrow> ([], Inl (Raised e))
           | Inr k \<Rightarrow>
               if k \<in> existing_ids then ([], Inl FoundExisting)
               else
                 (let yielded = (case detail show_key of
                                   DetailBody full_show \<Rightarrow> full_show
                                 | DetailFailed \<Rightarrow> show);
                      (ys, r) = fetch_items detail limit existing_ids (count + 1) rest
                  in (yielded # ys, r)))
      | _ \<Rightarrow> ([], Inl (Raised AttributeError)))"

text \<open>
  The \<open>while url\<close> loop: one listing request per round. A body that is not a
  dictionary, or whose \<open>data\<close> is not a list, raises \<open>FetchError\<close>;
  \<open>paging.get\<close> raises \<open>AttributeError\<close> when \<open>paging\<close> is not a dictionary; the
  loop ends when \<open>next\<close> is absent or falsy.
\<close>

fun fetch_pages ::
  "(json \<Rightarrow> detail_response) \<Rightarrow> int option \<Rightarrow> json set \<Rightarrow> nat \<Rightarrow> page_response list
     \<Rightarrow> json list \<times> fetch_end" where
  "fetch_pages detail limit existing_ids count [] = ([], NoResponse)"
| "fetch_pages detail limit existing_ids count (response # later) =
     (case response of
        RequestFailed \<Rightarrow> ([], Raised FetchError)
      | Body (JObj data) \<Rightarrow>
          (case dict_get data ''data'' (JList []) of
             JList shows \<Rightarrow>
               (case fetch_items detail limit existing_ids count shows of
                  (ys, Inl e) \<Rightarrow> (ys, e)
                | (ys, Inr count') \<Rightarrow>
                    (case dict_get data ''paging'' (JObj []) of
                       JObj paging \<Rightarrow>
                         if truthy (dict_get paging ''next'' JNull)
                         then (let (zs, e) = fetch_pages detail limit existing_ids count' later
                               in (ys @ zs, e))
                         else (ys, Completed)
                     | _ \<Rightarrow> (ys, Raised AttributeError)))
           | _ \<Rightarrow> ([], Raised FetchError))
      | Body _ \<Rightarrow> ([], Raised FetchError))"

definition fetch_shows ::
  "(json \<Rightarrow> detail_response) \<Rightarrow> int option \<Rightarrow> json set \<Rightarrow> page_response list
     \<Rightarrow> json list \<times> fetch_end" where
  "fetch_shows detail limit existing_ids responses =
     fetch_pages detail limit existing_ids 0 responses"

text \<open>
  The catalog in the order the listing gives it: the items of the pages, page after
  page. A page that is not a dictionary with a list under \<open>data\<close> has no items.
  \<open>show_known\<close> says that the key of a catalog item is in \<open>existing_ids\<close>, and
  \<open>resolve\<close> is what is yielded for an item that is reached.
\<close>

definition page_items :: "page_response \<Rightarrow> json list" where
  "page_items response =
     (case response of
        Body (JObj data) \<Rightarrow>
          (case dict_get data ''data'' (JList []) of JList shows \<Rightarrow> shows | _ \<Rightarrow> [])
      | _ \<Rightarrow> [])"

definition catalog :: "page_response list \<Rightarrow> json list" where
  "catalog responses = concat (map page_items responses)"

definition show_key_of :: "json \<Rightarrow> json" where
  "show_key_of show = (case show of JObj d \<Rightarrow> dict_get d ''key'' JNull | _ \<Rightarrow> JNull)"

definition show_known :: "json set \<Rightarrow> json \<Rightarrow> bool" where
  "show_known existing_ids show =
     (case hash_key (show_key_of show) of Inr k \<Rightarrow> k \<in> existing_ids | Inl e \<Rightarrow> False)"

definition resolve :: "(json \<Rightarrow> detail_response) \<Rightarrow> json \<Rightarrow> json" where
  "resolve detail show =
     (case detail (show_key_of show) of DetailBody full_show \<Rightarrow> full_show | DetailFailed \<Rightarrow> show)"

section \<open>Loading and saving the index (main.py)\<close>

text \<open>
  The index file is its text, or \<open>None\<close> when it does not exist. Python's \<open>json\<close>
  module and the operating system are the environment: \<open>json_loads\<close> is the decoder
  (\<open>None\<close> for a \<open>JSONDecodeError\<close>), \<open>json_dumps\<close> the text that
  \<open>json.dump(..., indent=JSON_INDENT, ensure_ascii=False)\<close> writes, \<open>read_fails\<close> an
  \<open>IOError\<close> while reading, and \<open>write_fault\<close> where a write fails, if it does:
  creating the parent directory, opening the file, or after so many characters have
  reached the file.
\<close>

datatype write_fault = NoFault | MkdirFails | OpenFails | WriteFails nat

record io_env =
  json_loads :: "string \<Rightarrow> json option"
  json_dumps :: "json \<Rightarrow> string"
  read_fails :: bool
  write_fault :: write_fault

definition load_existing_index :: "io_env \<Rightarrow> string option \<Rightarrow> json list" where
  "load_existing_index io file =
     (case file of
        None \<Rightarrow> []
      | Some content \<Rightarrow>
          if read_fails io then []
          else (case json_loads io content of
                  None \<Rightarrow> []
                | Some (JList data) \<Rightarrow> data
                | Some _ \<Rightarrow> []))"

text \<open>
  The sort of \<open>save_index\<close>: \<open>sorted(data, key=lambda x: x.get("created_time", ""),
  reverse=True)\<close>. The keys are computed first, and \<open>x.get\<close> raises
  \<open>AttributeError\<close> on a record that is not a dictionary. \<open>reverse=True\<close> keeps the
  sort stable: the list is reversed, sorted in ascending order, and reversed again.
  \<open>ProcessedShow\<close> declares \<open>created_time\<close> a string, and strings are ordered
  character by character; keys of any other type are left to \<open>IllTyped\<close>.
\<close>

definition is_dict :: "json \<Rightarrow> bool" where
  "is_dict x = (case x of JObj d \<Rightarrow> True | _ \<Rightarrow> False)"

definition created_time_of :: "json \<Rightarrow> json" where
  "created_time_of x =
     (case x of JObj d \<Rightarrow> dict_get d ''created_time'' (JStr []) | _ \<Rightarrow> JNull)"

definition is_str :: "json \<Rightarrow> bool" where
  "is_str v = (case v of JStr s \<Rightarrow> True | _ \<Rightarrow> False)"

definition time_key :: "json \<Rightarrow> string" where
  "time_key x = (case created_time_of x of JStr s \<Rightarrow> s | _ \<Rightarrow> [])"

definition sorted_by_created :: "json list \<Rightarrow> py_exn + json list" where
  "sorted_by_created data =
     (if \<not> list_all is_dict data then Inl AttributeError
      else if \<not> list_all (\<lambda>x. is_str (created_time_of x)) data then Inl IllTyped
      else Inr (rev (sort_key time_key (rev data))))"

text \<open>
  \<open>save_index\<close> returns the exception it raises, if any, and the file it leaves.
  \<open>path.open("w")\<close> empties the file when it succeeds, and \<open>json.dump\<close> then writes
  into it; \<open>path.parent.mkdir\<close> stands before the \<open>try\<close>, and an \<open>OSError\<close> is
  an \<open>IOError\<close>.
\<close>

definition save_index ::
  "io_env \<Rightarrow> string option \<Rightarrow> json list \<Rightarrow> py_exn option \<times> string option" where
  "save_index io file data =
     (case sorted_by_created data of
        Inl e \<Rightarrow> (Some e, file)
      | Inr sorted_data \<Rightarrow>
          (case write_fault io of
             MkdirFails \<Rightarrow> (Some IOError, file)
           | OpenFails \<Rightarrow> (Some IOError, file)
           | WriteFails n \<Rightarrow> (Some IOError, Some (take n (json_dumps io (JList sorted_data))))
           | NoFault \<Rightarrow> (None, Some (json_dumps io (JList sorted_data)))))"

definition EXIT_SUCCESS :: int where "EXIT_SUCCESS = 0"
definition EXIT_CONFIG_ERROR :: int where "EXIT_CONFIG_ERROR = 1"
definition EXIT_FETCH_ERROR :: int where "EXIT_FETCH_ERROR = 2"
definition EXIT_PROCESSING_ERROR :: int where "EXIT_PROCESSING_ERROR = 3"
definition EXIT_IO_ERROR :: int where "EXIT_IO_ERROR = 4"

text \<open>
  How a mode of the program ends: it returns an exit code, or an exception leaves it
  (which \<open>main\<close> turns into \<open>EXIT_PROCESSING_ERROR\<close>), or the fetch ran out of
  listing responses.
\<close>

datatype run_result = Exit int | Uncaught py_exn | Unfinished

section \<open>Building the processor (processor.py)\<close>

text \<open>
  \<open>_load_config\<close>: a missing file, a failed read, text that is not JSON, a document
  that is not an object, or one without a list under \<open>shows\<close> raises
  \<open>ConfigError\<close>.
\<close>

definition load_config :: "io_env \<Rightarrow> string option \<Rightarrow> py_exn + pydict" where
  "load_config io config_file =
     (case config_file of
        None \<Rightarrow> Inl ConfigError
      | Some content \<Rightarrow>
          if read_fails io then Inl ConfigError
          else (case json_loads io content of
                  Some (JObj config) \<Rightarrow>
                    if \<not> dict_has config ''shows'' then Inl ConfigError
                    else (case dict_get config ''shows'' JNull of
                            JList show_configs \<Rightarrow> Inr config
                          | _ \<Rightarrow> Inl ConfigError)
                | _ \<Rightarrow> Inl ConfigError))"

text \<open>
  \<open>_compile_patterns\<close>. \<open>re_compile\<close> is \<open>re.compile\<close>: the compiled pattern,
  or \<open>None\<close> for \<open>re.error\<close>, which becomes a \<open>ConfigError\<close>. An entry that is
  not a dictionary, or whose name or regex is missing or falsy, is skipped; a truthy
  regex that is not a string makes \<open>re.compile\<close> raise \<open>TypeError\<close>;
  \<open>extra_tags\<close> that are not a list count as none. \<open>ShowPattern\<close> declares the
  name a string and the extra tags strings; other values are left to \<open>IllTyped\<close>.
\<close>

fun compile_patterns ::
  "(string \<Rightarrow> re_flag list \<Rightarrow> re_Pattern option) \<Rightarrow> json list
     \<Rightarrow> py_exn + CompiledPattern list" where
  "compile_patterns re_compile [] = Inr []"
| "compile_patterns re_compile (JObj show_config # rest) =
     (let name_value = dict_get show_config ''name'' JNull;
          regex_value = dict_get show_config ''regex'' JNull
      in if \<not> truthy name_value \<or> \<not> truthy regex_value
         then compile_patterns re_compile rest
         else case regex_value of
                JStr regex_str \<Rightarrow>
                  (case re_compile regex_str [IGNORECASE] of
                     None \<Rightarrow> Inl ConfigError
                   | Some compiled_regex \<Rightarrow>
                       (let tags_value = (case dict_get show_config ''extra_tags'' (JList []) of
                                            JList ts \<Rightarrow> ts
                                          | _ \<Rightarrow> [])
                        in case (name_value, str_list tags_value) of
                             (JStr pattern_name, Some tags) \<Rightarrow>
                               (case compile_patterns re_compile rest of
                                  Inl e \<Rightarrow> Inl e
                                | Inr compiled \<Rightarrow>
                                    Inr (\<lparr>name = pattern_name, regex = compiled_regex,
                                          extra_tags = tags\<rparr> # compiled))
                           | _ \<Rightarrow> Inl IllTyped))
              | _ \<Rightarrow> Inl TypeError)"
| "compile_patterns re_compile (other # rest) = compile_patterns re_compile rest"

text \<open>The alias table as \<open>ConfigData\<close> declares it: strings for strings.\<close>

fun str_pairs :: "(string \<times> json) list \<Rightarrow> (string \<times> string) list option" where
  "str_pairs [] = Some []"
| "str_pairs ((alias, JStr canonical) # rest) =
     map_option (Cons (alias, canonical)) (str_pairs rest)"
| "str_pairs (other # rest) = None"

text \<open>\<open>DataProcessor.__init__\<close>: the configuration, then the patterns.\<close>

definition data_processor_init ::
  "io_env \<Rightarrow> (string \<Rightarrow> re_flag list \<Rightarrow> re_Pattern option) \<Rightarrow> string option
     \<Rightarrow> py_exn + DataProcessor" where
  "data_processor_init io re_compile config_file =
     (case load_config io config_file of
        Inl e \<Rightarrow> Inl e
      | Inr config \<Rightarrow>
          (case dict_get config ''shows'' (JList []) of
             JList show_configs \<Rightarrow>
               (case compile_patterns re_compile show_configs of
                  Inl e \<Rightarrow> Inl e
                | Inr compiled \<Rightarrow>
                    (case dict_get config ''tag_mappings'' (JObj []) of
                       JObj mappings \<Rightarrow>
                         (case str_pairs mappings of
                            Some aliases \<Rightarrow>
                              Inr \<lparr>tag_mappings = aliases, patterns = compiled\<rparr>
                          | None \<Rightarrow> Inl IllTyped)
                     | _ \<Rightarrow> Inl IllTyped))
           | _ \<Rightarrow> Inl ConfigError))"

section \<open>Local update mode (main.py)\<close>

text \<open>
  The tags of a stored record as \<open>ProcessedShow\<close> declares them: a list of strings.
\<close>

definition stored_tags :: "pydict \<Rightarrow> string list option" where
  "stored_tags d =
     (case dict_get d ''tags'' (JList []) of JList ts \<Rightarrow> str_list ts | _ \<Rightarrow> None)"

text \<open>
  \<open>processor.get_category_info(show.get("name", ""))\<close> on a stored name. A falsy name
  of any type takes the default; a truthy name that is not a string raises
  \<open>TypeError\<close> at the first \<open>regex.search\<close>, if there is a pattern to try.
\<close>

definition category_of_name :: "DataProcessor \<Rightarrow> json \<Rightarrow> py_exn + string \<times> string list" where
  "category_of_name self stored_name =
     (case stored_name of
        JStr title \<Rightarrow> Inr (get_category_info self title)
      | other \<Rightarrow>
          if \<not> truthy other \<or> patterns self = [] then Inr (DEFAULT_CATEGORY, [])
          else Inl TypeError)"

text \<open>
  The body of the \<open>for show in existing_data\<close> loop: the record as the loop leaves it
  and what it adds to \<open>updated_count\<close>. Both log messages of an update read
  \<open>show['name']\<close>, which raises \<open>KeyError\<close> on a record without a name.
\<close>

definition update_show :: "DataProcessor \<Rightarrow> json \<Rightarrow> py_exn + json \<times> nat" where
  "update_show self show =
     (case show of
        JObj d \<Rightarrow>
          (case stored_tags d of
             None \<Rightarrow> Inl IllTyped
           | Some current_tags \<Rightarrow>
               (case category_of_name self (dict_get d ''name'' (JStr [])) of
                  Inl e \<Rightarrow> Inl e
                | Inr (new_category, extra) \<Rightarrow>
                    (let old_category = dict_get d ''category'' JNull;
                         category_changed = (old_category \<noteq> JStr new_category);
                         d1 = (if category_changed
                               then dict_set d ''category'' (JStr new_category) else d);
                         new_tags = normalize_tags self (current_tags @ extra);
                         tags_changed = (new_tags \<noteq> sorted_list_of_set (set current_tags));
                         d2 = (if tags_changed
                               then dict_set d1 ''tags'' (JList (map JStr new_tags)) else d1)
                     in if (category_changed \<or> tags_changed) \<and> \<not> dict_has d ''name''
                        then Inl KeyError
                        else Inr (JObj d2,
                                  (if category_changed then 1 else 0)
                                    + (if tags_changed then 1 else 0)))))
      | _ \<Rightarrow> Inl AttributeError)"

fun update_all :: "DataProcessor \<Rightarrow> json list \<Rightarrow> py_exn + json list \<times> nat" where
  "update_all self [] = Inr ([], 0)"
| "update_all self (show # rest) =
     (case update_show self show of
        Inl e \<Rightarrow> Inl e
      | Inr (show', n) \<Rightarrow>
          (case update_all self rest of
             Inl e \<Rightarrow> Inl e
           | Inr (rest', m) \<Rightarrow> Inr (show' # rest', n + m)))"

text \<open>\<open>perform_local_update\<close>: the result of the run and the index file it leaves.\<close>

definition perform_local_update ::
  "io_env \<Rightarrow> DataProcessor \<Rightarrow> string option \<Rightarrow> run_result \<times> string option" where
  "perform_local_update io processor file =
     (let existing_data = load_existing_index io file in
      if existing_data = [] then (Exit EXIT_SUCCESS, file)
      else case update_all processor existing_data of
             Inl e \<Rightarrow> (Uncaught e, file)
           | Inr (updated_data, updated_count) \<Rightarrow>
               if updated_count > 0 then
                 (case save_index io file updated_data of
                    (None, file') \<Rightarrow> (Exit EXIT_SUCCESS, file')
                  | (Some IOError, file') \<Rightarrow> (Exit EXIT_IO_ERROR, file')
                  | (Some e, file') \<Rightarrow> (Uncaught e, file'))
               else (Exit EXIT_SUCCESS, file))"

section \<open>Fetch mode (main.py)\<close>

text \<open>
  \<open>show["key"]\<close> on a loaded record: \<open>KeyError\<close> on a dictionary without the key,
  \<open>TypeError\<close> on anything that is not a dictionary.
\<close>

definition subscript :: "json \<Rightarrow> string \<Rightarrow> py_exn + json" where
  "subscript show k =
     (case show of
        JObj d \<Rightarrow> (case map_of d k of None \<Rightarrow> Inl KeyError | Some v \<Rightarrow> Inr v)
      | _ \<Rightarrow> Inl TypeError)"

text \<open>The set comprehension \<open>{show["key"] for show in existing_data}\<close>.\<close>

fun existing_ids_of :: "json list \<Rightarrow> py_exn + json set" where
  "existing_ids_of [] = Inr {}"
| "existing_ids_of (show # rest) =
     (case subscript show ''key'' of
        Inl e \<Rightarrow> Inl e
      | Inr v \<Rightarrow>
          (case hash_key v of
             Inl e \<Rightarrow> Inl e
           | Inr k \<Rightarrow>
               (case existing_ids_of rest of
                  Inl e \<Rightarrow> Inl e
                | Inr ids \<Rightarrow> Inr (insert k ids))))"

text \<open>
  The loop over the fetched records: a \<open>ProcessingError\<close> is logged and the record
  skipped; any other exception of \<open>process_show\<close> leaves the loop.
\<close>

fun index_new :: "DataProcessor \<Rightarrow> json list \<Rightarrow> py_exn + pydict list" where
  "index_new processor [] = Inr []"
| "index_new processor (raw_show # rest) =
     (case process_show processor raw_show of
        Inl (ProcessingError e) \<Rightarrow> index_new processor rest
      | Inl e \<Rightarrow> Inl e
      | Inr processed_show \<Rightarrow>
          (case index_new processor rest of
             Inl e \<Rightarrow> Inl e
           | Inr new_shows \<Rightarrow> Inr (processed_show # new_shows)))"

text \<open>
  \<open>perform_fetch_and_index\<close>. \<open>processor_init\<close> is the outcome of
  \<open>DataProcessor(str(config_path))\<close>: the processor or the exception it raises, of
  which only \<open>ConfigError\<close> is caught. A record is processed as soon as it is
  yielded, so an exception of the processing loop comes before the way the generator
  ends.
\<close>

definition perform_fetch_and_index ::
  "io_env \<Rightarrow> py_exn + DataProcessor \<Rightarrow> (json \<Rightarrow> detail_response) \<Rightarrow> page_response list
     \<Rightarrow> int option \<Rightarrow> string option \<Rightarrow> run_result \<times> string option" where
  "perform_fetch_and_index io processor_init detail responses limit file =
     (let existing_data = load_existing_index io file in
      case existing_ids_of existing_data of
        Inl e \<Rightarrow> (Uncaught e, file)
      | Inr existing_ids \<Rightarrow>
          (case processor_init of
             Inl ConfigError \<Rightarrow> (Exit EXIT_CONFIG_ERROR, file)
           | Inl e \<Rightarrow> (Uncaught e, file)
           | Inr processor \<Rightarrow>
               (case fetch_shows detail limit existing_ids responses of
                  (raw_shows, fetch_end) \<Rightarrow>
                    (case index_new processor raw_shows of
                       Inl e \<Rightarrow> (Uncaught e, file)
                     | Inr new_shows \<Rightarrow>
                         (case fetch_end of
                            Raised FetchError \<Rightarrow> (Exit EXIT_FETCH_ERROR, file)
                          | Raised e \<Rightarrow> (Uncaught e, file)
                          | NoResponse \<Rightarrow> (Unfinished, file)
                          | _ \<Rightarrow>
                              if new_shows \<noteq> [] then
                                (case save_index io file (map JObj new_shows @ existing_data) of
                                   (None, file') \<Rightarrow> (Exit EXIT_SUCCESS, file')
                                 | (Some IOError, file') \<Rightarrow> (Exit EXIT_IO_ERROR, file')
                                 | (Some e, file') \<Rightarrow> (Uncaught e, file'))
                              else (Exit EXIT_SUCCESS, file))))))"

section \<open>Example inputs\<close>

text \<open>
  Two alias tables: the one of the specification's example, and one in which a
  canonical value is itself an alias.
\<close>

definition hiphop_aliases :: DataProcessor where
  "hiphop_aliases = \<lparr>tag_mappings = [(''hiphop'', ''Hip-Hop'')], patterns = []\<rparr>"

definition chained_aliases :: DataProcessor where
  "chained_aliases = \<lparr>tag_mappings = [(''a'', ''B''), (''b'', ''C'')], patterns = []\<rparr>"

text \<open>
  A pattern without metacharacters, compiled with \<open>re.IGNORECASE\<close>: its \<open>search\<close>
  finds the text anywhere in the title, whatever the case of the letters. The rules
  of the specification's first example stand between one that does not match its
  title and one that does, but comes later.
\<close>

definition literal_pattern :: "string \<Rightarrow> re_Pattern" where
  "literal_pattern s = \<lparr>search = (\<lambda>title. sublist (lower s) (lower title))\<rparr>"

definition ska_rule :: CompiledPattern where
  "ska_rule = \<lparr>name = ''Ska'', regex = literal_pattern ''ska'', extra_tags = []\<rparr>"

definition punk_rule :: CompiledPattern where
  "punk_rule =
     \<lparr>name = ''Punk'', regex = literal_pattern ''punk'', extra_tags = [''genre:punk'']\<rparr>"

definition live_rule :: CompiledPattern where
  "live_rule = \<lparr>name = ''Live'', regex = literal_pattern ''live'', extra_tags = [''live'']\<rparr>"

definition punk_rules :: DataProcessor where
  "punk_rules = \<lparr>tag_mappings = [], patterns = [ska_rule, punk_rule, live_rule]\<rparr>"

text \<open>
  The same rules as the \<open>shows\<close> of a configuration file, with an entry that has no
  regex among them, and \<open>re.compile\<close> on patterns without metacharacters.
\<close>

definition literal_compile :: "string \<Rightarrow> re_flag list \<Rightarrow> re_Pattern option" where
  "literal_compile regex_str flags =
     (if IGNORECASE \<in> set flags then Some (literal_pattern regex_str)
      else Some \<lparr>search = (\<lambda>title. sublist regex_str title)\<rparr>)"

definition rule_configs :: "json list" where
  "rule_configs =
     [JObj [(''name'', JStr ''Ska''), (''regex'', JStr ''ska'')],
      JObj [(''name'', JStr ''Broken'')],
      JObj [(''name'', JStr ''Punk''), (''regex'', JStr ''punk''),
            (''extra_tags'', JList [JStr ''genre:punk''])],
      JObj [(''name'', JStr ''Live''), (''regex'', JStr ''live''),
            (''extra_tags'', JList [JStr ''live''])]]"

text \<open>
  Raw records as the API returns them: a complete one, one whose description is the
  title with an underscore in it, and one without a slug. \<open>punk_processed\<close> is
  what \<open>process_show\<close> makes of the first.
\<close>

definition punk_raw :: json where
  "punk_raw = JObj
     [(''key'', JStr ''/punkrockradio/live-punk/''),
      (''url'', JStr ''https://www.mixcloud.com/punkrockradio/live-punk/''),
      (''name'', JStr '' Live Punk Session ''),
      (''slug'', JStr ''live-punk''),
      (''created_time'', JStr ''2024-05-01T20:00:00Z''),
      (''pictures'',
         JObj [(''medium'', JStr ''https://t.mixcloud.com/unsafe/300x300/extaudio/abc/uuid.jpg'')]),
      (''tags'', JList [JObj [(''name'', JStr ''Punk Rock''), (''url'', JStr ''/discover/punk-rock/'')]]),
      (''audio_length'', JInt 3600),
      (''description'', JStr ''Live punk session!'')]"

definition punk_processed :: pydict where
  "punk_processed =
     [(''name'', JStr ''Live Punk Session''),
      (''slug'', JStr ''live-punk''),
      (''created_time'', JStr ''2024-05-01T20:00:00Z''),
      (''picture_key'', JStr ''extaudio/abc/uuid.jpg''),
      (''tags'', JList [JStr ''Punk Rock'', JStr ''genre:punk'']),
      (''category'', JStr ''Punk''),
      (''audio_length'', JInt 3600)]"

definition underscore_raw :: json where
  "underscore_raw = JObj
     [(''key'', JStr ''/punkrockradio/ab/''),
      (''url'', JStr ''https://www.mixcloud.com/punkrockradio/ab/''),
      (''name'', JStr ''ab''),
      (''slug'', JStr ''ab''),
      (''description'', JStr ''a_b'')]"

definition underscore_processed :: pydict where
  "underscore_processed =
     [(''name'', JStr ''ab''),
      (''slug'', JStr ''ab''),
      (''created_time'', JStr []),
      (''picture_key'', JStr []),
      (''tags'', JList []),
      (''category'', JStr DEFAULT_CATEGORY),
      (''audio_length'', JInt 0),
      (''description'', JStr ''a_b'')]"


text \<open>
  The normalization as the specification words it: the alphanumeric characters of the
  text, lower-cased.
\<close>

definition is_alnum :: "char \<Rightarrow> bool" where
  "is_alnum c =
     (c \<in> set ''abcdefghijklmnopqrstuvwxyzABCDEFGHIJKLMNOPQRSTUVWXYZ0123456789'')"

definition spec_alnum_lower :: "string \<Rightarrow> string" where
  "spec_alnum_lower text = lower (filter is_alnum text)"

text \<open>
  A stand-in for the \<open>json\<close> module and the file system of the examples: the text
  \<open>[stored]\<close> decodes to an index that holds \<open>punk_processed\<close>, and nothing fails.
\<close>

definition stored_io :: io_env where
  "stored_io =
     \<lparr>json_loads = (\<lambda>content. if content = ''[stored]''
                                 then Some (JList [JObj punk_processed]) else None),
      json_dumps = (\<lambda>doc. ''[saved]''),
      read_fails = False,
      write_fault = NoFault\<rparr>"

text \<open>
  The listing of the specification's third scenario: the first page has the items
  with the keys k3 and k2 and names a next page, the second page has the item k1 and
  no next page. Only the detail request for k3 succeeds.
\<close>

definition k3_summary :: json where
  "k3_summary = JObj [(''key'', JStr ''/prr/k3/''), (''name'', JStr ''Show 3'')]"

definition k2_summary :: json where
  "k2_summary = JObj [(''key'', JStr ''/prr/k2/''), (''name'', JStr ''Show 2'')]"

definition k1_summary :: json where
  "k1_summary = JObj [(''key'', JStr ''/prr/k1/''), (''name'', JStr ''Show 1'')]"

definition k3_detail :: json where
  "k3_detail = JObj [(''key'', JStr ''/prr/k3/''), (''name'', JStr ''Show 3''),
                     (''description'', JStr ''The third show'')]"

definition two_pages :: "page_response list" where
  "two_pages =
     [Body (JObj [(''data'', JList [k3_summary, k2_summary]),
                  (''paging'', JObj [(''next'', JStr ''https://api.mixcloud.com/p2'')])]),
      Body (JObj [(''data'', JList [k1_summary]),
                  (''paging'', JObj [])])]"

definition only_k3_detail :: "json \<Rightarrow> detail_response" where
  "only_k3_detail k = (if k = JStr ''/prr/k3/'' then DetailBody k3_detail else DetailFailed)"

definition every_detail :: "json \<Rightarrow> detail_response" where
  "every_detail k = DetailBody (JObj [(''key'', k)])"



definition show_2023 :: json where
  "show_2023 = JObj [(''name'', JStr ''A''), (''created_time'', JStr ''2023-11-30T19:00:00Z'')]"

definition show_undated :: json where
  "show_undated = JObj [(''name'', JStr ''B'')]"

definition show_2024 :: json where
  "show_2024 = JObj [(''name'', JStr ''C''), (''created_time'', JStr ''2024-05-01T20:00:00Z'')]"

section \<open>Properties\<close>

lemma first_mapping_in_values:
  "first_mapping m t = Some v \<Longrightarrow> v \<in> snd ` set m"
  by (induction m t rule: first_mapping.induct) (auto split: if_splits)

lemma normalize_tag_cases:
  "normalize_tag self t = t \<or> normalize_tag self t \<in> snd ` set (tag_mappings self)"
  by (auto simp: normalize_tag_def dest: first_mapping_in_values split: option.splits)

subsection \<open>Tag normalization\<close>

lemma normalize_tag_fixed:
  assumes "\<forall>v\<in>snd ` set (tag_mappings self). normalize_tag self v = v"
  shows "normalize_tag self (normalize_tag self t) = normalize_tag self t"
  using assms normalize_tag_cases [of self t] by auto

text \<open>
  C8. \<open>normalize_tags\<close> is not idempotent for every alias table: \<open>normalize_tag\<close>
  looks a tag up once and does not follow the table any further, so with the table
  \<open>{"a": "B", "b": "C"}\<close> the list \<open>["a"]\<close> becomes \<open>["B"]\<close> and \<open>["B"]\<close> becomes
  \<open>["C"]\<close>.
\<close>

theorem normalize_tags_not_idempotent:
  "normalize_tags chained_aliases (normalize_tags chained_aliases [''a''])
     \<noteq> normalize_tags chained_aliases [''a'']"
proof -
  have 1: "normalize_tags chained_aliases [''a''] = [''B'']"
    by code_simp
  have 2: "normalize_tags chained_aliases [''B''] = [''C'']"
    by code_simp
  show ?thesis
    by (simp add: 1 2)
qed

text \<open>
  C8, amended. When every canonical value of the alias table is left unchanged by
  \<open>normalize_tag\<close> (no value is, ignoring case, an alias of something else),
  normalizing a normalized list returns the same list.
\<close>

theorem normalize_tags_idempotent:
  assumes "\<forall>v\<in>snd ` set (tag_mappings self). normalize_tag self v = v"
  shows "normalize_tags self (normalize_tags self tags) = normalize_tags self tags"
proof -
  let ?f = "normalize_tag self"
  have "?f ` (?f ` set tags) = ?f ` set tags"
    using normalize_tag_fixed [OF assms] by (auto simp: image_iff)
  then show ?thesis
    by (simp add: normalize_tags_def)
qed

theorem normalize_tags_idempotent_witness:
  "normalize_tag hiphop_aliases ''Hip-Hop'' = ''Hip-Hop''
   \<and> normalize_tags hiphop_aliases [''HipHop'', ''Jazz'', ''hiphop''] = [''Hip-Hop'', ''Jazz'']
   \<and> normalize_tags hiphop_aliases
         (normalize_tags hiphop_aliases [''HipHop'', ''Jazz'', ''hiphop''])
       = [''Hip-Hop'', ''Jazz'']"
proof -
  have fixed: "normalize_tag hiphop_aliases ''Hip-Hop'' = ''Hip-Hop''"
    by code_simp
  have h: "\<forall>v\<in>snd ` set (tag_mappings hiphop_aliases). normalize_tag hiphop_aliases v = v"
    using fixed by (simp add: hiphop_aliases_def)
  have e: "normalize_tags hiphop_aliases [''HipHop'', ''Jazz'', ''hiphop''] = [''Hip-Hop'', ''Jazz'']"
    by code_simp
  show ?thesis
    using normalize_tags_idempotent [OF h, of "[''HipHop'', ''Jazz'', ''hiphop'']"] fixed e
    by simp
qed

subsection \<open>Categories\<close>

lemma match_patterns_first:
  "(\<forall>q\<in>set before. \<not> search (regex q) title) \<Longrightarrow> search (regex p) title \<Longrightarrow>
   match_patterns (before @ p # after) title = (name p, extra_tags p)"
  by (induction before) auto

lemma match_patterns_none:
  "(\<forall>q\<in>set ps. \<not> search (regex q) title) \<Longrightarrow>
   match_patterns ps title = (DEFAULT_CATEGORY, [])"
  by (induction ps) auto

lemma compile_patterns_flags:
  "compile_patterns re_compile configs = Inr ps \<Longrightarrow>
   \<forall>p\<in>set ps. \<exists>regex_str. re_compile regex_str [IGNORECASE] = Some (regex p)"
proof (induction configs arbitrary: ps)
  case Nil
  then show ?case by simp
next
  case (Cons config rest)
  show ?case
  proof (cases config)
    case (JObj show_config)
    with Cons.prems Cons.IH show ?thesis
      by (fastforce simp: Let_def split: if_splits json.splits option.splits sum.splits)
  qed (use Cons.prems Cons.IH in auto)
qed

lemma rule_configs_compiled:
  "compile_patterns literal_compile rule_configs = Inr [ska_rule, punk_rule, live_rule]"
  by (simp add: rule_configs_def literal_compile_def ska_rule_def punk_rule_def live_rule_def
      dict_get_def)

text \<open>
  C3. An empty title gets the default category and no extra tags, whatever the rules
  are. For any other title \<open>get_category_info\<close> returns the name and the extra tags
  of the first rule, in the order of the list, whose pattern \<open>search\<close> finds in the
  title; when no rule matches it returns the default category and no tags. The
  pattern of every rule that \<open>_compile_patterns\<close> builds is what \<open>re.compile\<close>
  returns for some regex with the flag \<open>re.IGNORECASE\<close>, and it is asked with
  \<open>search\<close>, not \<open>fullmatch\<close>; what that finds is the \<open>re\<close> module's business.
\<close>

theorem get_category_info_first_match:
  "get_category_info self [] = (DEFAULT_CATEGORY, [])
   \<and> (title \<noteq> [] \<and> patterns self = before @ p # after
        \<and> (\<forall>q\<in>set before. \<not> search (regex q) title) \<and> search (regex p) title
      \<longrightarrow> get_category_info self title = (name p, extra_tags p))
   \<and> (title \<noteq> [] \<and> (\<forall>q\<in>set (patterns self). \<not> search (regex q) title)
      \<longrightarrow> get_category_info self title = (DEFAULT_CATEGORY, []))
   \<and> (compile_patterns re_compile configs = Inr (patterns self)
      \<longrightarrow> (\<forall>q\<in>set (patterns self).
             \<exists>regex_str. re_compile regex_str [IGNORECASE] = Some (regex q)))"
proof -
  have "compile_patterns re_compile configs = Inr (patterns self)
      \<longrightarrow> (\<forall>q\<in>set (patterns self).
             \<exists>regex_str. re_compile regex_str [IGNORECASE] = Some (regex q))"
    using compile_patterns_flags [of re_compile configs "patterns self"] by blast
  then show ?thesis
    by (simp add: get_category_info_def match_patterns_first match_patterns_none)
qed

theorem get_category_info_first_match_witness:
  "\<not> search (regex ska_rule) ''Live Punk Session''
   \<and> search (regex punk_rule) ''Live Punk Session''
   \<and> search (regex live_rule) ''Live Punk Session''
   \<and> get_category_info punk_rules ''Live Punk Session'' = (''Punk'', [''genre:punk''])
   \<and> compile_patterns literal_compile rule_configs = Inr (patterns punk_rules)"
proof -
  have 1: "\<not> search (regex ska_rule) ''Live Punk Session''"
    by code_simp
  have 2: "search (regex punk_rule) ''Live Punk Session''"
    by code_simp
  have 3: "search (regex live_rule) ''Live Punk Session''"
    by code_simp
  have "get_category_info punk_rules ''Live Punk Session'' = (name punk_rule, extra_tags punk_rule)"
    using get_category_info_first_match
            [of punk_rules "''Live Punk Session''" "[ska_rule]" punk_rule "[live_rule]"] 1 2
    by (simp add: punk_rules_def)
  then show ?thesis
    using 1 2 3 rule_configs_compiled by (simp add: punk_rule_def punk_rules_def)
qed

subsection \<open>Processing a record\<close>




lemma process_show_no_key:
  assumes "process_show self raw_data = Inr p"
  shows "map_of p ''key'' = None"
  using assms
  by (auto simp: process_show_def Let_def dict_set_def
      split: sum.splits json.splits py_exn.splits if_splits prod.splits)



lemma punk_raw_processed: "process_show punk_rules punk_raw = Inr punk_processed"
  by code_simp

lemma underscore_raw_processed:
  "process_show punk_rules underscore_raw = Inr underscore_processed"
  by code_simp



text \<open>
  When \<open>process_show\<close> returns, the record has a description exactly when the raw
  description is a string that is not empty and whose \<open>_normalize_text\<close> differs
  from that of the trimmed title.
\<close>

lemma process_show_description:
  assumes "process_show self (JObj raw) = Inr p"
  shows "dict_has p ''description''
           = (\<exists>raw_name description.
                dict_get raw ''name'' (JStr []) = JStr raw_name
                \<and> dict_get raw ''description'' (JStr []) = JStr description
                \<and> description \<noteq> []
                \<and> normalize_text (strip raw_name) \<noteq> normalize_text description)"
  using assms
  by (auto simp: process_show_def Let_def dict_set_def dict_has_def
      split: sum.splits json.splits py_exn.splits if_splits prod.splits)

text \<open>
  C10. \<open>_normalize_text\<close> removes the characters outside \<open>\w\<close>, and the underscore
  is inside: for the title \<open>ab\<close> and the description \<open>a_b\<close> the alphanumeric
  lower-cased forms are equal, the forms that \<open>_normalize_text\<close> compares are not,
  and the description is kept.
\<close>

theorem underscore_description_kept:
  "process_show punk_rules underscore_raw = Inr underscore_processed
   \<and> dict_get underscore_processed ''name'' JNull = JStr ''ab''
   \<and> dict_get underscore_processed ''description'' JNull = JStr ''a_b''
   \<and> spec_alnum_lower ''a_b'' = spec_alnum_lower ''ab''
   \<and> normalize_text ''a_b'' \<noteq> normalize_text ''ab''"
proof -
  have 1: "dict_get underscore_processed ''name'' JNull = JStr ''ab''"
    by code_simp
  have 2: "dict_get underscore_processed ''description'' JNull = JStr ''a_b''"
    by code_simp
  have 3: "spec_alnum_lower ''a_b'' = spec_alnum_lower ''ab''"
    by code_simp
  have 4: "normalize_text ''a_b'' \<noteq> normalize_text ''ab''"
    by code_simp
  show ?thesis
    using underscore_raw_processed 1 2 3 4 by simp
qed

subsection \<open>The known keys of fetch mode\<close>

lemma existing_ids_of_KeyError:
  assumes "existing \<noteq> []" and "\<forall>show\<in>set existing. subscript show ''key'' = Inl KeyError"
  shows "existing_ids_of existing = Inl KeyError"
  using assms by (cases existing) auto

text \<open>
  C1. A record that \<open>process_show\<close> returns has no \<open>key\<close> field. Fetch mode
  reads \<open>show["key"]\<close> from every record of the loaded index, so on an index that
  is not empty and holds only records made by \<open>process_show\<close> the set of known
  keys is never built: the comprehension raises \<open>KeyError\<close>, no fetch starts and
  the index file stays as it was.
\<close>

theorem fetch_mode_key_error:
  assumes "existing \<noteq> []"
    and "\<forall>show\<in>set existing. \<exists>self raw p. process_show self raw = Inr p \<and> show = JObj p"
    and "load_existing_index io file = existing"
  shows "(\<forall>self raw p. process_show self raw = Inr p \<longrightarrow> \<not> dict_has p ''key'')
         \<and> (\<forall>show\<in>set existing. subscript show ''key'' = Inl KeyError)
         \<and> existing_ids_of existing = Inl KeyError
         \<and> perform_fetch_and_index io processor_init detail responses limit file
             = (Uncaught KeyError, file)"
proof -
  have 1: "\<forall>self raw p. process_show self raw = Inr p \<longrightarrow> \<not> dict_has p ''key''"
    by (simp add: dict_has_def process_show_no_key)
  have 2: "\<forall>show\<in>set existing. subscript show ''key'' = Inl KeyError"
    using assms(2) process_show_no_key by (fastforce simp: subscript_def)
  have 3: "existing_ids_of existing = Inl KeyError"
    using assms(1) 2 by (rule existing_ids_of_KeyError)
  have 4: "perform_fetch_and_index io processor_init detail responses limit file
             = (Uncaught KeyError, file)"
    using 3 assms(3) by (simp add: perform_fetch_and_index_def)
  show ?thesis
    using 1 2 3 4 by blast
qed

theorem fetch_mode_key_error_witness:
  "load_existing_index stored_io (Some ''[stored]'') = [JObj punk_processed]
   \<and> process_show punk_rules punk_raw = Inr punk_processed
   \<and> existing_ids_of [JObj punk_processed] = Inl KeyError
   \<and> perform_fetch_and_index stored_io (Inr punk_rules) (\<lambda>k. DetailFailed) [] None
        (Some ''[stored]'') = (Uncaught KeyError, Some ''[stored]'')"
proof -
  have a: "[JObj punk_processed] \<noteq> []"
    by simp
  have b: "\<forall>show\<in>set [JObj punk_processed].
             \<exists>self raw p. process_show self raw = Inr p \<and> show = JObj p"
    using punk_raw_processed by auto
  have c: "load_existing_index stored_io (Some ''[stored]'') = [JObj punk_processed]"
    by (simp add: load_existing_index_def stored_io_def)
  show ?thesis
    using fetch_mode_key_error [OF a b c, of "Inr punk_rules" "\<lambda>k. DetailFailed" "[]" None]
      c punk_raw_processed
    by simp
qed

subsection \<open>The walk over the catalog\<close>

lemma resolve_dict:
  "resolve detail (JObj d) =
     (case detail (dict_get d ''key'' JNull) of DetailBody full_show \<Rightarrow> full_show
      | DetailFailed \<Rightarrow> JObj d)"
  by (simp add: resolve_def show_key_of_def)

lemma show_known_dict:
  "show_known K (JObj d) =
     (case hash_key (dict_get d ''key'' JNull) of Inr k \<Rightarrow> k \<in> K | Inl e \<Rightarrow> False)"
  by (simp add: show_known_def show_key_of_def)

lemma fetch_items_reached:
  "fetch_items detail limit K count listing = (ys, r) \<Longrightarrow>
     ys = map (resolve detail) (take (length ys) listing)
     \<and> (\<forall>s\<in>set (take (length ys) listing). \<not> show_known K s)
     \<and> length ys \<le> length listing
     \<and> (\<forall>c. r = Inr c \<longrightarrow> length ys = length listing)"
proof (induction listing arbitrary: count ys r)
  case Nil
  then show ?case by simp
next
  case (Cons item rest)
  show ?case
  proof (cases "case limit of None \<Rightarrow> False | Some l \<Rightarrow> int count \<ge> l")
    case True
    with Cons.prems show ?thesis by auto
  next
    case nolimit: False
    show ?thesis
    proof (cases item)
      case (JObj d)
      show ?thesis
      proof (cases "hash_key (dict_get d ''key'' JNull)")
        case (Inl e)
        with Cons.prems nolimit JObj show ?thesis by auto
      next
        case (Inr k)
        show ?thesis
        proof (cases "k \<in> K")
          case True
          with Cons.prems nolimit JObj Inr show ?thesis by auto
        next
          case False
          obtain zs r' where rest: "fetch_items detail limit K (count + 1) rest = (zs, r')"
            by (cases "fetch_items detail limit K (count + 1) rest")
          from Cons.prems nolimit JObj Inr False rest
          have ys: "ys = resolve detail item # zs" and r: "r = r'"
            by (auto simp: resolve_dict)
          from Cons.IH [OF rest] ys r JObj Inr False show ?thesis
            by (simp add: show_known_dict)
        qed
      qed
    qed (use Cons.prems nolimit in auto)
  qed
qed

lemma fetch_pages_reached:
  "fetch_pages detail limit K count responses = (ys, e) \<Longrightarrow>
     ys = map (resolve detail) (take (length ys) (catalog responses))
     \<and> (\<forall>s\<in>set (take (length ys) (catalog responses)). \<not> show_known K s)
     \<and> length ys \<le> length (catalog responses)"
proof (induction responses arbitrary: count ys e)
  case Nil
  then show ?case by simp
next
  case (Cons response later)
  have cat: "catalog (response # later) = page_items response @ catalog later"
    by (simp add: catalog_def)
  show ?case
  proof (cases "\<exists>data listing. response = Body (JObj data)
                   \<and> dict_get data ''data'' (JList []) = JList listing")
    case False
    with Cons.prems have "ys = []"
      by (auto split: page_response.splits json.splits)
    then show ?thesis by simp
  next
    case True
    then obtain data listing where resp: "response = Body (JObj data)"
      and listing: "dict_get data ''data'' (JList []) = JList listing"
      by blast
    have items: "page_items response = listing"
      using resp listing by (simp add: page_items_def)
    obtain ys1 r where it: "fetch_items detail limit K count listing = (ys1, r)"
      by (cases "fetch_items detail limit K count listing")
    note A = fetch_items_reached [OF it]
    show ?thesis
    proof (cases "\<exists>c paging. r = Inr c \<and> dict_get data ''paging'' (JObj []) = JObj paging
                     \<and> truthy (dict_get paging ''next'' JNull)")
      case False
      with Cons.prems resp listing it have "ys = ys1"
        by (auto split: sum.splits json.splits if_splits)
      with A show ?thesis
        by (simp add: cat items)
    next
      case True
      then obtain c paging where r: "r = Inr c"
        and pg: "dict_get data ''paging'' (JObj []) = JObj paging"
        and nx: "truthy (dict_get paging ''next'' JNull)"
        by blast
      obtain zs e' where later: "fetch_pages detail limit K c later = (zs, e')"
        by (cases "fetch_pages detail limit K c later")
      from Cons.prems resp listing it r pg nx later have ys: "ys = ys1 @ zs"
        by simp
      from A r have len: "length ys1 = length listing" by simp
      from Cons.IH [OF later] A len ys show ?thesis
        by (auto simp: cat items)
    qed
  qed
qed


lemma take_prefix_takeWhile:
  "(\<forall>s\<in>set (take n xs). P s) \<Longrightarrow> prefix (take n xs) (takeWhile P xs)"
proof (induction xs arbitrary: n)
  case Nil
  then show ?case by simp
next
  case (Cons x xs)
  then show ?case by (cases n) auto
qed

lemma fetch_items_walk:
  "fetch_items d1 limit K count listing = (ys1, r1) \<Longrightarrow>
   fetch_items d2 limit K count listing = (ys2, r2) \<Longrightarrow>
   length ys1 = length ys2 \<and> r1 = r2"
proof (induction listing arbitrary: count ys1 ys2 r1 r2)
  case Nil
  then show ?case by auto
next
  case (Cons item rest)
  obtain zs1 q1 where 1: "fetch_items d1 limit K (count + 1) rest = (zs1, q1)"
    by (cases "fetch_items d1 limit K (count + 1) rest")
  obtain zs2 q2 where 2: "fetch_items d2 limit K (count + 1) rest = (zs2, q2)"
    by (cases "fetch_items d2 limit K (count + 1) rest")
  from Cons.IH [OF 1 2] Cons.prems 1 2 show ?case
    by (auto simp: Let_def split: if_splits json.splits sum.splits)
qed

lemma fetch_pages_walk:
  "fetch_pages d1 limit K count responses = (ys1, e1) \<Longrightarrow>
   fetch_pages d2 limit K count responses = (ys2, e2) \<Longrightarrow>
   length ys1 = length ys2 \<and> e1 = e2"
proof (induction responses arbitrary: count ys1 ys2 e1 e2)
  case Nil
  then show ?case by auto
next
  case (Cons response later)
  show ?case
  proof (cases "\<exists>data listing. response = Body (JObj data)
                   \<and> dict_get data ''data'' (JList []) = JList listing")
    case False
    with Cons.prems show ?thesis
      by (auto split: page_response.splits json.splits)
  next
    case True
    then obtain data listing where resp: "response = Body (JObj data)"
      and listing: "dict_get data ''data'' (JList []) = JList listing"
      by blast
    obtain a1 r1 where i1: "fetch_items d1 limit K count listing = (a1, r1)"
      by (cases "fetch_items d1 limit K count listing")
    obtain a2 r2 where i2: "fetch_items d2 limit K count listing = (a2, r2)"
      by (cases "fetch_items d2 limit K count listing")
    from fetch_items_walk [OF i1 i2] have same: "length a1 = length a2" "r1 = r2"
      by simp_all
    show ?thesis
    proof (cases "\<exists>c paging. r1 = Inr c \<and> dict_get data ''paging'' (JObj []) = JObj paging
                     \<and> truthy (dict_get paging ''next'' JNull)")
      case False
      with Cons.prems resp listing i1 i2 same show ?thesis
        by (auto split: sum.splits json.splits if_splits)
    next
      case True
      then obtain c paging where r: "r1 = Inr c"
        and pg: "dict_get data ''paging'' (JObj []) = JObj paging"
        and nx: "truthy (dict_get paging ''next'' JNull)"
        by blast
      obtain z1 f1 where l1: "fetch_pages d1 limit K c later = (z1, f1)"
        by (cases "fetch_pages d1 limit K c later")
      obtain z2 f2 where l2: "fetch_pages d2 limit K c later = (z2, f2)"
        by (cases "fetch_pages d2 limit K c later")
      from Cons.IH [OF l1 l2] Cons.prems resp listing i1 i2 same r pg nx l1 l2
      show ?thesis by auto
    qed
  qed
qed

text \<open>
  C2. Whatever the pages, the limit and the set of known keys are, the records that
  \<open>fetch_shows\<close> yields are the resolved items of a stretch of the catalog that
  starts at its first item and ends before the first item whose key is known. So no
  item with a known key is yielded, and none that comes after such an item in the
  catalog, on whatever page it stands: the number of records yielded is at most the
  position of any known item.
\<close>

theorem incremental_fetch_stops_before_known:
  "(\<exists>reached. fst (fetch_shows detail limit K responses) = map (resolve detail) reached
       \<and> prefix reached (takeWhile (\<lambda>item. \<not> show_known K item) (catalog responses)))
   \<and> (\<forall>i. i < length (catalog responses) \<and> show_known K (catalog responses ! i)
         \<longrightarrow> length (fst (fetch_shows detail limit K responses)) \<le> i)"
proof -
  obtain ys e where run: "fetch_pages detail limit K 0 responses = (ys, e)"
    by (cases "fetch_pages detail limit K 0 responses")
  note R = fetch_pages_reached [OF run]
  let ?reached = "take (length ys) (catalog responses)"
  have 1: "prefix ?reached (takeWhile (\<lambda>item. \<not> show_known K item) (catalog responses))"
    using R by (intro take_prefix_takeWhile) simp
  have 2: "length ys \<le> i" if "i < length (catalog responses)"
    and "show_known K (catalog responses ! i)" for i
  proof (rule ccontr)
    assume "\<not> length ys \<le> i"
    then have "catalog responses ! i \<in> set ?reached"
      using that(1) by (auto simp: in_set_conv_nth intro!: exI [of _ i])
    with R that(2) show False by blast
  qed
  show ?thesis
    using R 1 2 run by (auto simp: fetch_shows_def)
qed

text \<open>
  C5. The answers to the detail requests change neither how many records the fetch
  yields nor how it ends: the same walk with any other answers yields as many
  records and ends the same way. Every item that is reached is yielded, and an item
  whose detail request failed is yielded as the summary item of the listing.
\<close>

theorem detail_failure_yields_summary:
  assumes "fetch_shows detail limit K responses = (ys, e)"
    and "fetch_shows detail' limit K responses = (ys', e')"
  shows "length ys = length ys' \<and> e = e'
         \<and> length ys \<le> length (catalog responses)
         \<and> (\<forall>i<length ys. detail (show_key_of (catalog responses ! i)) = DetailFailed
               \<longrightarrow> ys ! i = catalog responses ! i)"
proof -
  from assms have 1: "length ys = length ys' \<and> e = e'"
    unfolding fetch_shows_def by (rule fetch_pages_walk)
  from assms(1) have R: "ys = map (resolve detail) (take (length ys) (catalog responses))"
    and L: "length ys \<le> length (catalog responses)"
    unfolding fetch_shows_def by (auto dest: fetch_pages_reached)
  have 2: "ys ! i = catalog responses ! i"
    if "i < length ys" "detail (show_key_of (catalog responses ! i)) = DetailFailed" for i
  proof -
    have "ys ! i = resolve detail (catalog responses ! i)"
      using that(1) L by (subst R) simp
    with that(2) show ?thesis by (simp add: resolve_def)
  qed
  show ?thesis using 1 2 L by blast
qed


lemma two_pages_catalog: "catalog two_pages = [k3_summary, k2_summary, k1_summary]"
  by code_simp

lemma two_pages_incremental:
  "fetch_shows only_k3_detail None {JStr ''/prr/k2/''} two_pages = ([k3_detail], FoundExisting)"
  by code_simp

lemma two_pages_full:
  "fetch_shows only_k3_detail None {} two_pages
     = ([k3_detail, k2_summary, k1_summary], Completed)"
  by code_simp

lemma two_pages_every:
  "fetch_shows every_detail None {} two_pages
     = ([JObj [(''key'', JStr ''/prr/k3/'')], JObj [(''key'', JStr ''/prr/k2/'')],
         JObj [(''key'', JStr ''/prr/k1/'')]], Completed)"
  by code_simp

theorem incremental_fetch_stops_before_known_witness:
  "catalog two_pages = [k3_summary, k2_summary, k1_summary]
   \<and> show_known {JStr ''/prr/k2/''} k2_summary
   \<and> fetch_shows only_k3_detail None {JStr ''/prr/k2/''} two_pages = ([k3_detail], FoundExisting)
   \<and> length (fst (fetch_shows only_k3_detail None {JStr ''/prr/k2/''} two_pages)) \<le> 1"
proof -
  have known: "show_known {JStr ''/prr/k2/''} k2_summary"
    by code_simp
  have "length (fst (fetch_shows only_k3_detail None {JStr ''/prr/k2/''} two_pages)) \<le> 1"
    using incremental_fetch_stops_before_known
            [of only_k3_detail None "{JStr ''/prr/k2/''}" two_pages]
      known two_pages_catalog
    by (metis One_nat_def length_Cons lessI list.size(3) nth_Cons_0 nth_Cons_Suc
        less_Suc_eq)
  then show ?thesis
    using known two_pages_catalog two_pages_incremental by simp
qed

theorem detail_failure_yields_summary_witness:
  "only_k3_detail (show_key_of k2_summary) = DetailFailed
   \<and> only_k3_detail (show_key_of k1_summary) = DetailFailed
   \<and> fetch_shows only_k3_detail None {} two_pages
       = ([k3_detail, k2_summary, k1_summary], Completed)
   \<and> snd (fetch_shows every_detail None {} two_pages) = Completed
   \<and> length (fst (fetch_shows every_detail None {} two_pages)) = 3"
proof -
  have 1: "only_k3_detail (show_key_of k2_summary) = DetailFailed"
    by code_simp
  have 2: "only_k3_detail (show_key_of k1_summary) = DetailFailed"
    by code_simp
  show ?thesis
    using detail_failure_yields_summary [OF two_pages_full two_pages_every] 1 2
      two_pages_full two_pages_every
    by simp
qed

subsection \<open>Saving the index and local update mode\<close>

lemma sorted_by_created_typed:
  assumes "list_all is_dict data" and "list_all (\<lambda>x. is_str (created_time_of x)) data"
  shows "sorted_by_created data = Inr (rev (sort_key time_key (rev data)))"
  using assms by (simp add: sorted_by_created_def)

lemma count_list_insort_key:
  "count_list (insort_key f a xs) x = count_list (a # xs) x"
  by (induction xs) auto

lemma count_list_sort_key: "count_list (sort_key f xs) x = count_list xs x"
  by (induction xs) (simp_all add: count_list_insort_key)

lemma count_list_reversed: "count_list (rev xs) x = count_list xs x"
  by (induction xs) simp_all

lemma descending_sort:
  "sorted_wrt (\<lambda>a b. b \<le> a) (map time_key (rev (sort_key time_key xs)))"
  by (simp add: sorted_wrt_rev flip: rev_map)


text \<open>
  C6. For records whose creation time, where they have one, is a string (the type
  \<open>ProcessedShow\<close> declares), and when no write fails, \<open>save_index\<close> writes the
  serialization of a list that holds the same records, ordered by creation time from
  the greatest to the least, with every record whose creation time is the empty
  string of the fallback after every record that has a creation time.
\<close>

theorem save_index_sorted:
  assumes "list_all is_dict data"
    and "list_all (\<lambda>x. is_str (created_time_of x)) data"
    and "write_fault io = NoFault"
  shows "\<exists>sorted_data.
           save_index io file data = (None, Some (json_dumps io (JList sorted_data)))
           \<and> (\<forall>x. count_list sorted_data x = count_list data x)
           \<and> sorted_wrt (\<lambda>a b. time_key b \<le> time_key a) sorted_data
           \<and> (\<forall>i j. i < length sorted_data \<and> j < length sorted_data
                  \<and> created_time_of (sorted_data ! i) = JStr []
                  \<and> created_time_of (sorted_data ! j) \<noteq> JStr []
                \<longrightarrow> j < i)"
proof -
  let ?s = "rev (sort_key time_key (rev data))"
  have sd: "sorted_by_created data = Inr ?s"
    using assms(1,2) by (rule sorted_by_created_typed)
  have 1: "save_index io file data = (None, Some (json_dumps io (JList ?s)))"
    using sd assms(3) by (simp add: save_index_def)
  have 2: "\<forall>x. count_list ?s x = count_list data x"
    by (simp add: count_list_reversed count_list_sort_key)
  have 3: "sorted_wrt (\<lambda>a b. time_key b \<le> time_key a) ?s"
    using descending_sort [of "rev data"] by (simp add: sorted_wrt_map)
  have str: "is_str (created_time_of x)" if "x \<in> set ?s" for x
    using that assms(2) by (simp add: list_all_iff)
  have 4: "j < i" if "i < length ?s" "j < length ?s"
    "created_time_of (?s ! i) = JStr []" "created_time_of (?s ! j) \<noteq> JStr []" for i j
  proof (rule ccontr)
    assume "\<not> j < i"
    moreover have "i \<noteq> j" using that(3,4) by auto
    ultimately have "i < j" by simp
    from sorted_wrt_nth_less [OF 3 this that(2)]
    have le: "time_key (?s ! j) \<le> time_key (?s ! i)" .
    have "time_key (?s ! i) = []"
      using that(3) by (simp add: time_key_def)
    with le have "time_key (?s ! j) = []"
      by simp
    moreover have "is_str (created_time_of (?s ! j))"
      using that(2) by (intro str nth_mem)
    ultimately have "created_time_of (?s ! j) = JStr []"
      by (auto simp: time_key_def is_str_def split: json.splits)
    with that(4) show False by simp
  qed
  show ?thesis
    using 1 2 3 4 by blast
qed


theorem save_index_sorted_witness:
  "sorted_by_created [show_2023, show_undated, show_2024]
     = Inr [show_2024, show_2023, show_undated]
   \<and> created_time_of show_undated = JStr []
   \<and> save_index stored_io None [show_2023, show_undated, show_2024]
       = (None, Some (json_dumps stored_io (JList [show_2024, show_2023, show_undated])))"
proof -
  let ?data = "[show_2023, show_undated, show_2024]"
  have a: "list_all is_dict ?data"
    by code_simp
  have b: "list_all (\<lambda>x. is_str (created_time_of x)) ?data"
    by code_simp
  have c: "write_fault stored_io = NoFault"
    by (simp add: stored_io_def)
  have d: "sorted_by_created ?data = Inr [show_2024, show_2023, show_undated]"
    by code_simp
  have e: "created_time_of show_undated = JStr []"
    by code_simp
  from save_index_sorted [OF a b c, of None] obtain sorted_data where
    "save_index stored_io None ?data = (None, Some (json_dumps stored_io (JList sorted_data)))"
    by blast
  moreover have "save_index stored_io None ?data
      = (None, Some (json_dumps stored_io (JList [show_2024, show_2023, show_undated])))"
    using c d by (simp add: save_index_def)
  ultimately show ?thesis
    using d e by simp
qed




lemma update_show_unchanged:
  assumes "stored_tags d = Some current_tags"
    and "category_of_name processor (dict_get d ''name'' (JStr [])) = Inr (new_category, extra)"
    and "dict_get d ''category'' JNull = JStr new_category"
    and "normalize_tags processor (current_tags @ extra) = sorted_list_of_set (set current_tags)"
  shows "update_show processor (JObj d) = Inr (JObj d, 0)"
  using assms by (simp add: update_show_def)

lemma update_all_unchanged:
  assumes "\<forall>item\<in>set existing. update_show processor item = Inr (item, 0)"
  shows "update_all processor existing = Inr (existing, 0)"
  using assms by (induction existing) simp_all

text \<open>
  C7. When every stored record is a dictionary with a list of strings as its tags,
  the category derived from its name is the stored category, and the normalized
  merge of its tags with the extra tags is its sorted list of distinct tags, local
  update mode writes nothing: it returns the exit code of success and the index file
  is the one it found.
\<close>

theorem local_update_no_change_no_write:
  assumes "\<forall>item\<in>set (load_existing_index io file).
             \<exists>d current_tags new_category extra.
               item = JObj d
               \<and> stored_tags d = Some current_tags
               \<and> category_of_name processor (dict_get d ''name'' (JStr []))
                   = Inr (new_category, extra)
               \<and> dict_get d ''category'' JNull = JStr new_category
               \<and> normalize_tags processor (current_tags @ extra)
                   = sorted_list_of_set (set current_tags)"
  shows "perform_local_update io processor file = (Exit EXIT_SUCCESS, file)"
proof -
  have "\<forall>item\<in>set (load_existing_index io file). update_show processor item = Inr (item, 0)"
  proof
    fix item
    assume "item \<in> set (load_existing_index io file)"
    with assms obtain d current_tags new_category extra where
      "item = JObj d" "stored_tags d = Some current_tags"
      "category_of_name processor (dict_get d ''name'' (JStr [])) = Inr (new_category, extra)"
      "dict_get d ''category'' JNull = JStr new_category"
      "normalize_tags processor (current_tags @ extra) = sorted_list_of_set (set current_tags)"
      by metis
    then show "update_show processor item = Inr (item, 0)"
      by (simp add: update_show_unchanged)
  qed
  then have "update_all processor (load_existing_index io file)
               = Inr (load_existing_index io file, 0)"
    by (rule update_all_unchanged)
  then show ?thesis
    by (simp add: perform_local_update_def Let_def)
qed

theorem local_update_no_change_no_write_witness:
  "load_existing_index stored_io (Some ''[stored]'') = [JObj punk_processed]
   \<and> category_of_name punk_rules (dict_get punk_processed ''name'' (JStr []))
       = Inr (''Punk'', [''genre:punk''])
   \<and> perform_local_update stored_io punk_rules (Some ''[stored]'')
       = (Exit EXIT_SUCCESS, Some ''[stored]'')"
proof -
  have l: "load_existing_index stored_io (Some ''[stored]'') = [JObj punk_processed]"
    by (simp add: load_existing_index_def stored_io_def)
  have 1: "stored_tags punk_processed = Some [''Punk Rock'', ''genre:punk'']"
    by code_simp
  have 2: "category_of_name punk_rules (dict_get punk_processed ''name'' (JStr []))
             = Inr (''Punk'', [''genre:punk''])"
    by code_simp
  have 3: "dict_get punk_processed ''category'' JNull = JStr ''Punk''"
    by code_simp
  have 4: "normalize_tags punk_rules ([''Punk Rock'', ''genre:punk''] @ [''genre:punk''])
             = sorted_list_of_set (set [''Punk Rock'', ''genre:punk''])"
    by code_simp
  have "\<forall>item\<in>set (load_existing_index stored_io (Some ''[stored]'')).
             \<exists>d current_tags new_category extra.
               item = JObj d
               \<and> stored_tags d = Some current_tags
               \<and> category_of_name punk_rules (dict_get d ''name'' (JStr []))
                   = Inr (new_category, extra)
               \<and> dict_get d ''category'' JNull = JStr new_category
               \<and> normalize_tags punk_rules (current_tags @ extra)
                   = sorted_list_of_set (set current_tags)"
    using l 1 2 3 4 by auto
  from local_update_no_change_no_write [OF this] l 2 show ?thesis
    by simp
qed

end
